theory Spec2Isabelle
  imports Main "HOL-Library.Word"
begin

unbundle bit_operations_syntax

section \<open>JavaScript values\<close>

text \<open>
  The values that reach \<open>dist/server/db.js\<close>: \<open>undefined\<close>, \<open>null\<close>, booleans, numbers,
  strings, arrays and plain objects. A number is kept as the bit pattern of its IEEE-754
  double; the code never computes with a number it was given, it only compares.
  A string is the sequence of its code units.
  An object is the list of its own enumerable string-keyed properties, each key once, in
  the order the properties were created; an array is the list of its elements. An object
  or an array also carries the address it lives at, which is what \<open>===\<close> compares; a
  spread copies a property's value with its address, as the engine copies the reference.
\<close>

datatype jsval =
    JUndefined
  | JNull
  | JBoolean bool
  | JNumber "64 word"
  | JString string
  | JArray nat "jsval list"
  | JObject nat "(string \<times> jsval) list"

type_synonym props = "(string \<times> jsval) list"

text \<open>The \<open>typeof\<close> operator.\<close>

fun typeof :: "jsval \<Rightarrow> string" where
  "typeof JUndefined = ''undefined''"
| "typeof JNull = ''object''"
| "typeof (JBoolean b) = ''boolean''"
| "typeof (JNumber n) = ''number''"
| "typeof (JString s) = ''string''"
| "typeof (JArray a vs) = ''object''"
| "typeof (JObject a ps) = ''object''"

text \<open>
  \<open>String(n)\<close> for a non-negative integer \<open>n\<close> (here always an array length plus one, far
  below the \<open>1e21\<close> where JavaScript switches to exponent notation): the decimal digits,
  most significant first, no leading zero.
\<close>

definition digit_char :: "nat \<Rightarrow> char" where
  "digit_char d = ''0123456789'' ! d"

function String_nat :: "nat \<Rightarrow> string" where
  "String_nat n =
     (if n < 10 then [digit_char n] else String_nat (n div 10) @ [digit_char (n mod 10)])"
  by pat_completeness auto
termination
  by (relation "measure (\<lambda>n. n)") auto

declare String_nat.simps [simp del]

text \<open>Reads a decimal numeral back; used to show that \<open>String\<close> is injective.\<close>

definition digits_value :: "string \<Rightarrow> nat" where
  "digits_value s = foldl (\<lambda>acc c. 10 * acc + (of_char c - 48)) 0 s"

text \<open>Property read \<open>o.k\<close> on an object: \<open>undefined\<close> when the object has no such property.\<close>

definition get_prop :: "props \<Rightarrow> string \<Rightarrow> jsval" where
  "get_prop ps k = (case map_of ps k of None \<Rightarrow> JUndefined | Some v \<Rightarrow> v)"

text \<open>
  Defining a data property on an object under construction: an existing key keeps its
  place and takes the new value, a new key is added after the others. (An engine lists
  keys that are array indices before the others when an object is enumerated; no code
  here enumerates an object it built, and every property is read by its key.)
\<close>

fun set_prop :: "string \<Rightarrow> jsval \<Rightarrow> props \<Rightarrow> props" where
  "set_prop k v [] = [(k, v)]"
| "set_prop k v ((k', v') # ps) =
     (if k = k' then (k, v) # ps else (k', v') # set_prop k v ps)"

text \<open>
  The own enumerable properties that a spread \<open>...data\<close> copies: an object's properties,
  an array's elements and a string's code units under their indices, and nothing for
  \<open>undefined\<close>, \<open>null\<close>, booleans and numbers.
\<close>

fun own_props :: "jsval \<Rightarrow> props" where
  "own_props (JObject a ps) = ps"
| "own_props (JArray a vs) = zip (map String_nat [0..<length vs]) vs"
| "own_props (JString s) = zip (map String_nat [0..<length s]) (map (\<lambda>c. JString [c]) s)"
| "own_props JUndefined = []"
| "own_props JNull = []"
| "own_props (JBoolean b) = []"
| "own_props (JNumber n) = []"

text \<open>The object literal \<open>{ \<dots>, ...data }\<close>: the properties written so far, then those of \<open>data\<close>.\<close>

definition spread :: "props \<Rightarrow> jsval \<Rightarrow> props" where
  "spread target data = foldl (\<lambda>t (k, v). set_prop k v t) target (own_props data)"

text \<open>
  \<open>x === y\<close> on two numbers is the equality of IEEE-754 doubles: \<open>NaN\<close> (exponent all
  ones, fraction not zero) equals nothing, itself included, the two zeros equal each
  other, and any other two doubles are equal when their bits are.
\<close>

definition is_NaN :: "64 word \<Rightarrow> bool" where
  "is_NaN w =
     (w AND 0x7FF0000000000000 = 0x7FF0000000000000 \<and> w AND 0x000FFFFFFFFFFFFF \<noteq> 0)"

definition is_zero :: "64 word \<Rightarrow> bool" where
  "is_zero w = (w AND 0x7FFFFFFFFFFFFFFF = 0)"

definition number_equals :: "64 word \<Rightarrow> 64 word \<Rightarrow> bool" where
  "number_equals a b = (\<not> is_NaN a \<and> \<not> is_NaN b \<and> (a = b \<or> (is_zero a \<and> is_zero b)))"

text \<open>
  The strict equality \<open>x === y\<close>: false for values of different types; \<open>undefined\<close> and
  \<open>null\<close> equal themselves; booleans and strings are compared by value, numbers as
  doubles, and two objects or two arrays are equal when they are the same one.
\<close>

fun strict_equals :: "jsval \<Rightarrow> jsval \<Rightarrow> bool" where
  "strict_equals JUndefined JUndefined = True"
| "strict_equals JNull JNull = True"
| "strict_equals (JBoolean a) (JBoolean b) = (a = b)"
| "strict_equals (JNumber a) (JNumber b) = number_equals a b"
| "strict_equals (JString s) (JString t) = (s = t)"
| "strict_equals (JArray a vs) (JArray b ws) = (a = b)"
| "strict_equals (JObject a ps) (JObject b qs) = (a = b)"
| "strict_equals _ _ = False"

text \<open>Whether a value is the number \<open>NaN\<close>.\<close>

fun NaN_value :: "jsval \<Rightarrow> bool" where
  "NaN_value (JNumber w) = is_NaN w"
| "NaN_value JUndefined = False"
| "NaN_value JNull = False"
| "NaN_value (JBoolean b) = False"
| "NaN_value (JString s) = False"
| "NaN_value (JArray a vs) = False"
| "NaN_value (JObject a ps) = False"

section \<open>The imaginary database of \<open>dist/server/db.js\<close>\<close>

text \<open>
  The module-level array \<open>users\<close> is the state; every operation takes it and returns its
  result together with the array afterwards. The three functions are \<open>async\<close> without an
  \<open>await\<close> inside, so each call runs to its end before any other code does. A user is
  the object \<open>create\<close> built. The model puts no bound on the length of the array.

  \<open>findMany\<close> returns the array itself. \<open>findById\<close> takes any value and returns the
  first user whose \<open>id\<close> is \<open>===\<close> to it; \<open>users.find\<close> gives \<open>undefined\<close> when no
  element matches, here \<open>None\<close>. \<open>create\<close> builds
  \<open>{ id: String(users.length + 1), ...data }\<close>, pushes it and returns it.
\<close>

type_synonym user = props

definition findMany :: "user list \<Rightarrow> user list \<times> user list" where
  "findMany users = (users, users)"

definition findById :: "jsval \<Rightarrow> user list \<Rightarrow> user option \<times> user list" where
  "findById ident users =
     (find (\<lambda>user. strict_equals (get_prop user ''id'') ident) users, users)"

definition create :: "jsval \<Rightarrow> user list \<Rightarrow> user \<times> user list" where
  "create data users =
     (let user = spread [(''id'', JString (String_nat (length users + 1)))] data
      in (user, users @ [user]))"

section \<open>The \<open>userById\<close> procedure of the README\<close>

text \<open>\<open>new Error(message)\<close>, thrown by the input parser.\<close>

datatype error = Error string

text \<open>
  The input parser of \<open>userById\<close>: \<open>if (typeof val === 'string') return val;\<close> and
  otherwise \<open>throw new Error(`Invalid input: ${typeof val}`)\<close>. The value it returns is
  typed as a string, so the model hands on the string itself.
\<close>

definition userById_input :: "jsval \<Rightarrow> error + string" where
  "userById_input val =
     (case val of
        JString s \<Rightarrow> Inr s
      | _ \<Rightarrow> Inl (Error (''Invalid input: '' @ typeof val)))"

text \<open>
  The resolver of \<open>userById\<close>: \<open>const user = await db.user.findById(input); return user;\<close>
  where \<open>input\<close> is the string the parser returned.
\<close>

definition userById_query :: "string \<Rightarrow> user list \<Rightarrow> user option \<times> user list" where
  "userById_query inp users = findById (JString inp) users"

text \<open>
  Modelled from the spec: the validation error of the dispatcher (spec 4.2 and 7), which
  carries the original raw value and a human-readable reason.
\<close>

datatype failure = ValidationError jsval string

text \<open>
  Modelled from the spec: the call of a procedure, which the framework performs and the
  repository does not contain. These are steps 3 to 5 of the dispatcher (spec 4.2): run
  the validator on the raw input; if it reports invalid input, fail with a validation
  error carrying the original raw value and the reason, and do not invoke the handler;
  otherwise invoke the handler on the validated input and return its output unchanged.
  The second component of the result lists the inputs the handler was invoked with.
\<close>

definition call_procedure ::
  "(jsval \<Rightarrow> error + 'i) \<Rightarrow> ('i \<Rightarrow> 's \<Rightarrow> 'o \<times> 's) \<Rightarrow> jsval \<Rightarrow> 's \<Rightarrow> (failure + 'o) \<times> 'i list \<times> 's" where
  "call_procedure validate handler rawInput s =
     (case validate rawInput of
        Inl (Error reason) \<Rightarrow> (Inl (ValidationError rawInput reason), [], s)
      | Inr v \<Rightarrow> (case handler v s of (out, s') \<Rightarrow> (Inr out, [v], s')))"

text \<open>The procedure \<open>userById\<close>: the README's parser and resolver, run by that call.\<close>

definition userById ::
  "jsval \<Rightarrow> user list \<Rightarrow> (failure + user option) \<times> string list \<times> user list" where
  "userById rawInput users = call_procedure userById_input userById_query rawInput users"

section \<open>Sequences of calls\<close>

datatype call = FindMany | FindById jsval | Create jsval

text \<open>The array after one call, and after a sequence of calls on the empty array.\<close>

fun after_call :: "user list \<Rightarrow> call \<Rightarrow> user list" where
  "after_call users FindMany = snd (findMany users)"
| "after_call users (FindById ident) = snd (findById ident users)"
| "after_call users (Create data) = snd (create data users)"

definition after_calls :: "call list \<Rightarrow> user list" where
  "after_calls cs = foldl after_call [] cs"

text \<open>The ids of the stored users, in order.\<close>

definition ids :: "user list \<Rightarrow> jsval list" where
  "ids users = map (\<lambda>user. get_prop user ''id'') users"

text \<open>Whether the spread of \<open>data\<close> copies a property named \<open>id\<close>.\<close>

definition has_own_id :: "jsval \<Rightarrow> bool" where
  "has_own_id data = (''id'' \<in> set (map fst (own_props data)))"

fun id_free :: "call \<Rightarrow> bool" where
  "id_free (Create data) = (\<not> has_own_id data)"
| "id_free FindMany = True"
| "id_free (FindById ident) = True"

section \<open>Decimal numerals\<close>

lemma digit_char_code: "d < 10 \<Longrightarrow> of_char (digit_char d) = (48::nat) + d"
proof -
  assume "d < 10"
  then have "d = 0 \<or> d = 1 \<or> d = 2 \<or> d = 3 \<or> d = 4 \<or> d = 5 \<or> d = 6 \<or> d = 7 \<or> d = 8 \<or> d = 9"
    by arith
  then show ?thesis by (elim disjE) (simp_all add: digit_char_def)
qed

lemma String_nat_digit: "n < 10 \<Longrightarrow> String_nat n = [digit_char n]"
  by (simp add: String_nat.simps)

lemma String_nat_1: "String_nat (Suc 0) = ''1''"
  by (simp add: String_nat_digit digit_char_def)

lemma String_nat_2: "String_nat (Suc (Suc 0)) = ''2''"
  by (simp add: String_nat_digit digit_char_def)

lemma digits_value_String_nat: "digits_value (String_nat n) = n"
proof (induction n rule: String_nat.induct)
  case (1 n)
  show ?case
  proof (cases "n < 10")
    case True
    then show ?thesis by (simp add: String_nat_digit digits_value_def digit_char_code)
  next
    case False
    then have "digits_value (String_nat (n div 10)) = n div 10" using 1 by simp
    moreover have "n mod 10 < 10" by simp
    ultimately show ?thesis using False
      by (subst String_nat.simps) (simp add: digits_value_def digit_char_code)
  qed
qed

lemma String_nat_eq_iff: "String_nat m = String_nat n \<longleftrightarrow> m = n"
  by (metis digits_value_String_nat)

section \<open>Properties and the spread\<close>

lemma map_of_set_prop: "map_of (set_prop k v ps) = (map_of ps)(k \<mapsto> v)"
  by (induction ps) auto

lemma map_of_copy:
  "map_of (foldl (\<lambda>t (k, v). set_prop k v t) t ps) = map_of t ++ map_of (rev ps)"
proof (induction ps arbitrary: t)
  case Nil
  show ?case by simp
next
  case (Cons p ps)
  obtain k v where p: "p = (k, v)" by (cases p)
  show ?case
    by (simp add: Cons.IH p map_of_set_prop map_add_def fun_eq_iff split: option.splits)
qed

lemma get_prop_spread_other:
  "k \<notin> set (map fst (own_props data)) \<Longrightarrow> get_prop (spread t data) k = get_prop t k"
proof -
  assume "k \<notin> set (map fst (own_props data))"
  then have "map_of (rev (own_props data)) k = None"
    by (simp add: map_of_eq_None_iff)
  then show ?thesis
    by (simp add: get_prop_def spread_def map_of_copy map_add_def)
qed

lemma map_of_rev_distinct: "distinct (map fst ps) \<Longrightarrow> map_of (rev ps) = map_of ps"
proof (induction ps)
  case Nil
  show ?case by simp
next
  case (Cons p ps)
  obtain k v where p: "p = (k, v)" by (cases p)
  have "map_of (rev ps) k = None"
    using Cons.prems by (simp add: p map_of_eq_None_iff)
  then show ?case
    using Cons by (auto simp: p fun_eq_iff map_add_def split: option.splits)
qed

lemma get_prop_spread_own:
  assumes "distinct (map fst (own_props data))" and "map_of (own_props data) k = Some v"
  shows "get_prop (spread t data) k = v"
proof -
  have "map_of (rev (own_props data)) k = Some v"
    using assms by (simp add: map_of_rev_distinct)
  then show ?thesis
    by (simp add: get_prop_def spread_def map_of_copy map_add_def)
qed

lemma strict_equals_string_iff: "strict_equals v (JString s) \<longleftrightarrow> v = JString s"
  by (cases v) auto

lemma strict_equals_self: "strict_equals v v \<longleftrightarrow> \<not> NaN_value v"
  by (cases v) (auto simp: number_equals_def)

lemma findById_find:
  "fst (findById (JString s) users) = find (\<lambda>user. get_prop user ''id'' = JString s) users"
  by (simp add: findById_def strict_equals_string_iff)

lemma find_after_none: "find P xs = None \<Longrightarrow> find P (xs @ ys) = find P ys"
  by (induction xs) (auto split: if_splits)

lemma create_eq:
  "create data users =
     (spread [(''id'', JString (String_nat (length users + 1)))] data,
      users @ [spread [(''id'', JString (String_nat (length users + 1)))] data])"
  by (simp add: create_def Let_def)

lemma get_prop_id_literal: "get_prop [(''id'', v)] ''id'' = v"
  by (simp add: get_prop_def)

section \<open>The id that \<open>create\<close> assigns\<close>

text \<open>
  C1, as stated, fails: on the empty store \<open>create({id: "7", name: "x"})\<close> returns a user
  whose id is \<open>"7"\<close>, not \<open>String(0 + 1)\<close>.
\<close>

theorem create_id_not_always_length_plus_one:
  "get_prop (fst (create (JObject 0 [(''id'', JString ''7''), (''name'', JString ''x'')]) [])) ''id''
     \<noteq> JString (String_nat (length ([] :: user list) + 1))"
  by (simp add: create_eq spread_def get_prop_def String_nat_1)

text \<open>
  C1, amended. For every state of the user sequence and every input data that has no own
  property named \<open>id\<close>, \<open>create(data)\<close> returns a user whose id is the sequence's length at
  the time of the call plus 1, converted to a string.
\<close>

theorem create_id_is_length_plus_one:
  "\<not> has_own_id data \<Longrightarrow>
     get_prop (fst (create data users)) ''id'' = JString (String_nat (length users + 1))"
  by (simp add: create_eq has_own_id_def get_prop_spread_other get_prop_id_literal)

theorem create_id_is_length_plus_one_witness:
  "\<not> has_own_id (JObject 0 [(''name'', JString ''sachinraja'')])
   \<and> get_prop (fst (create (JObject 0 [(''name'', JString ''sachinraja'')])
         [[(''id'', JString ''1''), (''name'', JString ''a'')]])) ''id'' = JString ''2''"
  using create_id_is_length_plus_one
    [of "JObject 0 [(''name'', JString ''sachinraja'')]"
        "[[(''id'', JString ''1''), (''name'', JString ''a'')]]"]
  by (simp add: has_own_id_def String_nat_2)

section \<open>Uniqueness of ids\<close>

lemma after_calls_snoc: "after_calls (cs @ [c]) = after_call (after_calls cs) c"
  by (simp add: after_calls_def)

lemma ids_snoc: "ids (users @ [u]) = ids users @ [get_prop u ''id'']"
  by (simp add: ids_def)

lemma ids_after_id_free_calls:
  "list_all id_free cs \<Longrightarrow>
     ids (after_calls cs) =
       map (\<lambda>i. JString (String_nat (i + 1))) [0..<length (after_calls cs)]"
proof (induction cs rule: rev_induct)
  case Nil
  show ?case by (simp add: after_calls_def ids_def)
next
  case (snoc c cs)
  then have IH: "ids (after_calls cs) =
      map (\<lambda>i. JString (String_nat (i + 1))) [0..<length (after_calls cs)]"
    by simp
  show ?case
  proof (cases c)
    case FindMany
    then show ?thesis using IH by (simp add: after_calls_snoc findMany_def)
  next
    case (FindById ident)
    then show ?thesis using IH by (simp add: after_calls_snoc findById_def)
  next
    case (Create data)
    then have "\<not> has_own_id data" using snoc.prems by simp
    then have "get_prop (spread [(''id'', JString (String_nat (length (after_calls cs) + 1)))] data) ''id''
        = JString (String_nat (length (after_calls cs) + 1))"
      by (simp add: has_own_id_def get_prop_spread_other get_prop_id_literal)
    then show ?thesis
      using IH Create by (simp add: after_calls_snoc create_eq ids_snoc)
  qed
qed

lemma distinct_numbered_ids: "distinct (map (\<lambda>i. JString (String_nat (i + 1))) [0..<n])"
  by (simp add: distinct_map inj_on_def String_nat_eq_iff)

text \<open>
  C2, as stated, fails: after \<open>create({name: "a"})\<close> and \<open>create({id: "1", name: "b"})\<close>
  on the empty store, both stored users have the id \<open>"1"\<close>.
\<close>

theorem ids_not_always_distinct:
  "\<not> distinct (ids (after_calls
       [Create (JObject 0 [(''name'', JString ''a'')]),
        Create (JObject 1 [(''id'', JString ''1''), (''name'', JString ''b'')])]))"
  by (simp add: after_calls_def create_eq spread_def ids_def get_prop_def String_nat_1)

text \<open>
  C2, amended. Starting from the empty store, after any sequence of \<open>create\<close>, \<open>findMany\<close>
  and \<open>findById\<close> calls in which no \<open>create\<close> was given data with an own property named
  \<open>id\<close>, the ids of all stored users are pairwise distinct, and a further \<open>create\<close> with
  such data returns an id that differs from the id of every user already stored.
\<close>

theorem ids_distinct_when_data_has_no_id:
  "list_all id_free cs \<Longrightarrow>
     distinct (ids (after_calls cs))
     \<and> (\<not> has_own_id data \<longrightarrow>
          get_prop (fst (create data (after_calls cs))) ''id'' \<notin> set (ids (after_calls cs)))"
proof -
  assume free: "list_all id_free cs"
  have shape: "ids (after_calls cs) =
      map (\<lambda>i. JString (String_nat (i + 1))) [0..<length (after_calls cs)]"
    using free by (rule ids_after_id_free_calls)
  have "distinct (ids (after_calls cs))"
    by (subst shape) (rule distinct_numbered_ids)
  moreover have "get_prop (fst (create data (after_calls cs))) ''id'' \<notin> set (ids (after_calls cs))"
    if "\<not> has_own_id data"
  proof -
    have "get_prop (fst (create data (after_calls cs))) ''id''
        = JString (String_nat (length (after_calls cs) + 1))"
      using that by (simp add: create_eq has_own_id_def get_prop_spread_other get_prop_id_literal)
    moreover have "JString (String_nat (length (after_calls cs) + 1)) \<notin> set (ids (after_calls cs))"
      by (subst shape) (auto simp: String_nat_eq_iff)
    ultimately show ?thesis by simp
  qed
  ultimately show ?thesis by simp
qed

theorem ids_distinct_when_data_has_no_id_witness:
  "list_all id_free
     [Create (JObject 0 [(''name'', JString ''a'')]), FindMany, FindById (JString ''1''),
      Create (JObject 1 [(''name'', JString ''b'')])]
   \<and> distinct (ids (after_calls
       [Create (JObject 0 [(''name'', JString ''a'')]), FindMany, FindById (JString ''1''),
        Create (JObject 1 [(''name'', JString ''b'')])]))
   \<and> \<not> has_own_id (JObject 2 [(''name'', JString ''c'')])
   \<and> get_prop (fst (create (JObject 2 [(''name'', JString ''c'')]) (after_calls
       [Create (JObject 0 [(''name'', JString ''a'')]), FindMany, FindById (JString ''1''),
        Create (JObject 1 [(''name'', JString ''b'')])]))) ''id''
      \<notin> set (ids (after_calls
       [Create (JObject 0 [(''name'', JString ''a'')]), FindMany, FindById (JString ''1''),
        Create (JObject 1 [(''name'', JString ''b'')])]))"
  using ids_distinct_when_data_has_no_id
    [of "[Create (JObject 0 [(''name'', JString ''a'')]), FindMany, FindById (JString ''1''),
          Create (JObject 1 [(''name'', JString ''b'')])]"
        "JObject 2 [(''name'', JString ''c'')]"]
  by (simp add: has_own_id_def)

section \<open>Lookup by id\<close>

text \<open>
  C3. For every store state and every id string, \<open>findById(id)\<close> returns a stored user
  whose id equals the argument when such a user exists, and is absent when no stored user
  has that id; the operation has no failing branch. In particular \<open>findById("999")\<close> on a
  store holding only a user with id \<open>"1"\<close> is absent.
\<close>

theorem findById_found_or_absent:
  "((\<exists>u \<in> set users. get_prop u ''id'' = JString s) \<longrightarrow>
      (\<exists>u. fst (findById (JString s) users) = Some u \<and> u \<in> set users \<and> get_prop u ''id'' = JString s))
   \<and> ((\<forall>u \<in> set users. get_prop u ''id'' \<noteq> JString s) \<longrightarrow> fst (findById (JString s) users) = None)
   \<and> (get_prop u1 ''id'' = JString ''1'' \<longrightarrow> fst (findById (JString ''999'') [u1]) = None)"
proof (intro conjI impI)
  assume "\<exists>u \<in> set users. get_prop u ''id'' = JString s"
  then obtain u where "fst (findById (JString s) users) = Some u"
    by (cases "fst (findById (JString s) users)") (auto simp: findById_find find_None_iff)
  moreover from this have "u \<in> set users \<and> get_prop u ''id'' = JString s"
    by (auto simp: findById_find find_Some_iff)
  ultimately show "\<exists>u. fst (findById (JString s) users) = Some u \<and> u \<in> set users \<and> get_prop u ''id'' = JString s"
    by blast
next
  assume "\<forall>u \<in> set users. get_prop u ''id'' \<noteq> JString s"
  then show "fst (findById (JString s) users) = None"
    by (simp add: findById_find find_None_iff)
next
  assume "get_prop u1 ''id'' = JString ''1''"
  then show "fst (findById (JString ''999'') [u1]) = None"
    by (simp add: findById_find)
qed

theorem findById_found_or_absent_witness:
  "(\<exists>u \<in> set [[(''id'', JString ''1''), (''name'', JString ''a'')],
               [(''id'', JString ''2''), (''name'', JString ''b'')]].
       get_prop u ''id'' = JString ''2'')
   \<and> (\<exists>u. fst (findById (JString ''2'') [[(''id'', JString ''1''), (''name'', JString ''a'')],
                               [(''id'', JString ''2''), (''name'', JString ''b'')]]) = Some u
         \<and> get_prop u ''id'' = JString ''2'')
   \<and> get_prop [(''id'', JString ''1''), (''name'', JString ''a'')] ''id'' = JString ''1''
   \<and> fst (findById (JString ''999'') [[(''id'', JString ''1''), (''name'', JString ''a'')]]) = None"
  using findById_found_or_absent
    [of "[[(''id'', JString ''1''), (''name'', JString ''a'')],
          [(''id'', JString ''2''), (''name'', JString ''b'')]]"
        "''2''" "[(''id'', JString ''1''), (''name'', JString ''a'')]"]
  by (auto simp: get_prop_def)



section \<open>Create, then look up\<close>

text \<open>
  C4, as stated, fails, in two ways. After \<open>create({id: "2", name: "a"})\<close> on the empty
  store, \<open>create({name: "b"})\<close> returns the user \<open>{id: "2", name: "b"}\<close>, and
  \<open>findById("2")\<close> on the resulting store returns the earlier user
  \<open>{id: "2", name: "a"}\<close>. And on the empty store \<open>create({id: NaN, name: "n"})\<close> returns
  a user whose id is \<open>NaN\<close>, which \<open>===\<close> equals nothing, so \<open>findById(NaN)\<close> on the
  resulting store is absent.
\<close>

theorem create_then_findById_may_return_another_user:
  "get_prop (fst (create (JObject 1 [(''name'', JString ''b'')])
       (snd (create (JObject 0 [(''id'', JString ''2''), (''name'', JString ''a'')]) [])))) ''id''
     = JString ''2''
   \<and> fst (findById (JString ''2'') (snd (create (JObject 1 [(''name'', JString ''b'')])
       (snd (create (JObject 0 [(''id'', JString ''2''), (''name'', JString ''a'')]) [])))))
     \<noteq> Some (fst (create (JObject 1 [(''name'', JString ''b'')])
       (snd (create (JObject 0 [(''id'', JString ''2''), (''name'', JString ''a'')]) []))))
   \<and> get_prop (fst (create
       (JObject 0 [(''id'', JNumber 0x7FF8000000000000), (''name'', JString ''n'')]) [])) ''id''
     = JNumber 0x7FF8000000000000
   \<and> fst (findById (JNumber 0x7FF8000000000000) (snd (create
       (JObject 0 [(''id'', JNumber 0x7FF8000000000000), (''name'', JString ''n'')]) [])))
     \<noteq> Some (fst (create
       (JObject 0 [(''id'', JNumber 0x7FF8000000000000), (''name'', JString ''n'')]) []))"
  by (simp add: create_eq spread_def get_prop_def findById_def String_nat_1 String_nat_2
      number_equals_def is_NaN_def)

text \<open>
  C4, amended. For every store state and every input data, if \<open>create(data)\<close> returns the
  user \<open>u\<close>, the id of \<open>u\<close> is not \<open>NaN\<close>, and no user stored before the call has an id
  that is \<open>===\<close> to the id of \<open>u\<close>, then \<open>findById(u.id)\<close> evaluated on the resulting
  store returns exactly \<open>u\<close>.
\<close>

theorem create_then_findById:
  "\<not> NaN_value (get_prop (fst (create data users)) ''id'') \<Longrightarrow>
   \<forall>v \<in> set users.
      \<not> strict_equals (get_prop v ''id'') (get_prop (fst (create data users)) ''id'') \<Longrightarrow>
     fst (findById (get_prop (fst (create data users)) ''id'') (snd (create data users)))
       = Some (fst (create data users))"
proof -
  let ?u = "fst (create data users)"
  assume own: "\<not> NaN_value (get_prop ?u ''id'')"
    and fresh: "\<forall>v \<in> set users. \<not> strict_equals (get_prop v ''id'') (get_prop ?u ''id'')"
  have "find (\<lambda>user. strict_equals (get_prop user ''id'') (get_prop ?u ''id'')) users = None"
    using fresh by (simp add: find_None_iff)
  then have "find (\<lambda>user. strict_equals (get_prop user ''id'') (get_prop ?u ''id'')) (users @ [?u])
      = find (\<lambda>user. strict_equals (get_prop user ''id'') (get_prop ?u ''id'')) [?u]"
    by (rule find_after_none)
  moreover have "strict_equals (get_prop ?u ''id'') (get_prop ?u ''id'')"
    using own by (simp add: strict_equals_self)
  moreover have "snd (create data users) = users @ [?u]"
    by (simp add: create_eq)
  ultimately show ?thesis
    by (simp add: findById_def)
qed

theorem create_then_findById_witness:
  "\<not> NaN_value (JNumber 0x401C000000000000)
   \<and> \<not> strict_equals (JString ''1'') (JNumber 0x401C000000000000)
   \<and> create (JObject 0 [(''id'', JNumber 0x401C000000000000), (''name'', JString ''n'')])
       [[(''id'', JString ''1''), (''name'', JString ''a'')]]
     = ([(''id'', JNumber 0x401C000000000000), (''name'', JString ''n'')],
        [[(''id'', JString ''1''), (''name'', JString ''a'')],
         [(''id'', JNumber 0x401C000000000000), (''name'', JString ''n'')]])
   \<and> fst (findById (JNumber 0x401C000000000000)
       [[(''id'', JString ''1''), (''name'', JString ''a'')],
        [(''id'', JNumber 0x401C000000000000), (''name'', JString ''n'')]])
     = Some [(''id'', JNumber 0x401C000000000000), (''name'', JString ''n'')]"
  using create_then_findById
    [of "JObject 0 [(''id'', JNumber 0x401C000000000000), (''name'', JString ''n'')]"
        "[[(''id'', JString ''1''), (''name'', JString ''a'')]]"]
  by (simp add: create_eq spread_def get_prop_def is_NaN_def)

section \<open>The scenario of the client\<close>

text \<open>
  C5. From the empty store, \<open>create({name: "sachinraja"})\<close> returns
  \<open>{id: "1", name: "sachinraja"}\<close>; then \<open>findMany\<close> returns the one-element sequence
  holding that user, \<open>findById("1")\<close> returns it, and \<open>findById("999")\<close> is absent.
\<close>

theorem scenario_from_empty_store:
  "create (JObject 0 [(''name'', JString ''sachinraja'')]) [] =
     ([(''id'', JString ''1''), (''name'', JString ''sachinraja'')],
      [[(''id'', JString ''1''), (''name'', JString ''sachinraja'')]])
   \<and> fst (findMany (snd (create (JObject 0 [(''name'', JString ''sachinraja'')]) []))) =
       [[(''id'', JString ''1''), (''name'', JString ''sachinraja'')]]
   \<and> fst (findById (JString ''1'') (snd (create (JObject 0 [(''name'', JString ''sachinraja'')]) []))) =
       Some [(''id'', JString ''1''), (''name'', JString ''sachinraja'')]
   \<and> fst (findById (JString ''999'') (snd (create (JObject 0 [(''name'', JString ''sachinraja'')]) []))) =
       None"
  by (simp add: create_eq findMany_def findById_def spread_def get_prop_def String_nat_1)

section \<open>What each operation does to the store\<close>

text \<open>
  C6. The queries are side-effect-free: for every store state and every argument,
  \<open>findMany()\<close> and \<open>findById(id)\<close> leave the user sequence exactly as it was.
\<close>

theorem queries_leave_users_unchanged:
  "snd (findMany users) = users \<and> snd (findById ident users) = users"
  by (simp add: findMany_def findById_def)

text \<open>
  C7. For every store state and every input data, \<open>create(data)\<close> changes the store only
  by appending the user it returns at the end: the length grows by one, and every user
  stored before is unchanged and keeps its position.
\<close>

theorem create_appends_one_user:
  "snd (create data users) = users @ [fst (create data users)]
   \<and> length (snd (create data users)) = length users + 1
   \<and> take (length users) (snd (create data users)) = users
   \<and> (\<forall>i < length users. snd (create data users) ! i = users ! i)"
  by (simp add: create_eq nth_append)

theorem create_appends_one_user_witness:
  "snd (create (JObject 0 [(''name'', JString ''b'')])
       [[(''id'', JString ''1''), (''name'', JString ''a'')]])
     = [[(''id'', JString ''1''), (''name'', JString ''a'')],
        [(''id'', JString ''2''), (''name'', JString ''b'')]]
   \<and> snd (create (JObject 0 [(''name'', JString ''b'')])
       [[(''id'', JString ''1''), (''name'', JString ''a'')]]) ! 0
     = [(''id'', JString ''1''), (''name'', JString ''a'')]"
  using create_appends_one_user
    [of "JObject 0 [(''name'', JString ''b'')]"
        "[[(''id'', JString ''1''), (''name'', JString ''a'')]]"]
  by (simp add: create_eq spread_def String_nat_2)

text \<open>
  C9. For every store state and every input data that itself has a property named \<open>id\<close>
  (each of its keys occurring once, as in any object), \<open>create(data)\<close> returns and stores
  a user whose id is \<open>data.id\<close>, in place of the computed \<open>String(length + 1)\<close>: the
  spread of \<open>data\<close> comes after the \<open>id\<close> field and overrides it.
\<close>

theorem create_keeps_id_of_data:
  "distinct (map fst (own_props data)) \<Longrightarrow> map_of (own_props data) ''id'' = Some v \<Longrightarrow>
     get_prop (fst (create data users)) ''id'' = v
     \<and> last (snd (create data users)) = fst (create data users)
     \<and> (v \<noteq> JString (String_nat (length users + 1)) \<longrightarrow>
          get_prop (fst (create data users)) ''id'' \<noteq> JString (String_nat (length users + 1)))"
  by (simp add: create_eq get_prop_spread_own)

theorem create_keeps_id_of_data_witness:
  "distinct (map fst (own_props (JObject 0 [(''name'', JString ''b''), (''id'', JString ''7'')])))
   \<and> map_of (own_props (JObject 0 [(''name'', JString ''b''), (''id'', JString ''7'')])) ''id''
       = Some (JString ''7'')
   \<and> JString ''7'' \<noteq> JString (String_nat (length [[(''id'', JString ''1''), (''name'', JString ''a'')]] + 1))
   \<and> create (JObject 0 [(''name'', JString ''b''), (''id'', JString ''7'')])
       [[(''id'', JString ''1''), (''name'', JString ''a'')]]
     = ([(''id'', JString ''7''), (''name'', JString ''b'')],
        [[(''id'', JString ''1''), (''name'', JString ''a'')],
         [(''id'', JString ''7''), (''name'', JString ''b'')]])
   \<and> get_prop (fst (create (JObject 0 [(''name'', JString ''b''), (''id'', JString ''7'')])
       [[(''id'', JString ''1''), (''name'', JString ''a'')]])) ''id'' = JString ''7''"
  using create_keeps_id_of_data
    [of "JObject 0 [(''name'', JString ''b''), (''id'', JString ''7'')]" "JString ''7''"
        "[[(''id'', JString ''1''), (''name'', JString ''a'')]]"]
  by (simp add: create_eq spread_def String_nat_2)

section \<open>The input parser of \<open>userById\<close>\<close>

text \<open>
  C8. The input parser of \<open>userById\<close> accepts exactly the strings. If the value is a
  string, the parser returns it unchanged and the handler is invoked with it, once; if
  the value is not a string, the parser fails with an error whose message is
  \<open>Invalid input: \<close> followed by the type of the value, the call fails with a validation
  error carrying the value and that message, and the handler is not invoked.
\<close>

theorem userById_accepts_exactly_strings:
  "(\<forall>s. val = JString s \<longrightarrow>
       userById_input val = Inr s
       \<and> userById val users = (Inr (fst (findById (JString s) users)), [s], users))
   \<and> ((\<forall>s. val \<noteq> JString s) \<longrightarrow>
       userById_input val = Inl (Error (''Invalid input: '' @ typeof val))
       \<and> userById val users
           = (Inl (ValidationError val (''Invalid input: '' @ typeof val)), [], users))
   \<and> (typeof val = ''string'' \<longleftrightarrow> (\<exists>s. val = JString s))"
  by (cases val)
    (simp_all add: userById_def call_procedure_def userById_input_def userById_query_def
      findById_def)

theorem userById_accepts_exactly_strings_witness:
  "userById_input (JString ''1'') = Inr ''1''
   \<and> userById (JString ''1'') [[(''id'', JString ''1''), (''name'', JString ''sachinraja'')]]
     = (Inr (Some [(''id'', JString ''1''), (''name'', JString ''sachinraja'')]), [''1''],
        [[(''id'', JString ''1''), (''name'', JString ''sachinraja'')]])
   \<and> userById_input (JNumber 0x4045000000000000) = Inl (Error ''Invalid input: number'')
   \<and> userById (JNumber 0x4045000000000000)
       [[(''id'', JString ''1''), (''name'', JString ''sachinraja'')]]
     = (Inl (ValidationError (JNumber 0x4045000000000000) ''Invalid input: number''), [],
        [[(''id'', JString ''1''), (''name'', JString ''sachinraja'')]])"
  using userById_accepts_exactly_strings
    [of "JString ''1''" "[[(''id'', JString ''1''), (''name'', JString ''sachinraja'')]]"]
    userById_accepts_exactly_strings
    [of "JNumber 0x4045000000000000"
        "[[(''id'', JString ''1''), (''name'', JString ''sachinraja'')]]"]
  by (simp add: findById_def get_prop_def)

end
